theory Spec2Isabelle
  imports Complex_Main
begin

section \<open>Text, numbers and dates of the Python runtime\<close>

text \<open>
  Python text is modelled as \<^typ>\<open>string\<close>, restricted to ASCII: the form's key rules
  admit only ASCII characters, and the library predicates below are the ASCII part of
  Python's \<^verbatim>\<open>str.isdigit\<close>, \<^verbatim>\<open>str.lower\<close>, \<^verbatim>\<open>str.startswith\<close> and the
  substring test \<^verbatim>\<open>a in b\<close>.
\<close>

definition digit :: "char \<Rightarrow> bool" where
  "digit c \<longleftrightarrow> c \<in> set ''0123456789''"

definition isdigit :: "string \<Rightarrow> bool" where
  "isdigit s \<longleftrightarrow> s \<noteq> [] \<and> list_all digit s"

definition lower_char :: "char \<Rightarrow> char" where
  "lower_char c =
     (if (65::nat) \<le> of_char c \<and> of_char c \<le> (90::nat) then char_of (of_char c + (32::nat)) else c)"

definition lower :: "string \<Rightarrow> string" where
  "lower s = map lower_char s"

definition startswith :: "string \<Rightarrow> string \<Rightarrow> bool" where
  "startswith s p \<longleftrightarrow> take (length p) s = p"

fun py_in :: "string \<Rightarrow> string \<Rightarrow> bool" where
  "py_in sub [] = (sub = [])"
| "py_in sub (c # s) = (startswith (c # s) sub \<or> py_in sub s)"

fun split_on :: "char \<Rightarrow> string \<Rightarrow> string list" where
  "split_on sep [] = [[]]"
| "split_on sep (c # s) =
     (if c = sep then [] # split_on sep s
      else (case split_on sep s of [] \<Rightarrow> [[c]] | p # ps \<Rightarrow> (c # p) # ps))"

definition digit_val :: "char \<Rightarrow> nat" where
  "digit_val c = of_char c - 48"

definition int_of_digits :: "string \<Rightarrow> nat" where
  "int_of_digits s = foldl (\<lambda>n c. 10 * n + digit_val c) 0 s"

function str_nat :: "nat \<Rightarrow> string" where
  "str_nat n =
     (if n < 10 then [char_of (48 + n)] else str_nat (n div 10) @ [char_of (48 + n mod 10)])"
  by pat_completeness auto
termination
  by (relation "measure id") auto

declare str_nat.simps [simp del]

definition zfill :: "nat \<Rightarrow> string \<Rightarrow> string" where
  "zfill width s = replicate (width - length s) (CHR ''0'') @ s"

subsection \<open>Dates: \<^verbatim>\<open>datetime.strptime(s, '%Y-%m-%d')\<close> and \<^verbatim>\<open>strftime('%Y-%m-%d')\<close>\<close>

datatype date = Date (year: nat) (month: nat) (day: nat)

definition is_leap :: "nat \<Rightarrow> bool" where
  "is_leap y \<longleftrightarrow> y mod 4 = 0 \<and> (y mod 400 = 0 \<or> y mod 100 \<noteq> 0)"

definition days_in_month :: "nat \<Rightarrow> nat \<Rightarrow> nat" where
  "days_in_month y m =
     (if m = 2 then (if is_leap y then 29 else 28)
      else if m \<in> set [4, 6, 9, 11] then 30 else 31)"

text \<open>
  The library's patterns for the three directives (CPython, \<^verbatim>\<open>Lib/_strptime.py\<close>):
  \<^verbatim>\<open>%Y\<close> is \<^verbatim>\<open>\d\d\d\d\<close>, \<^verbatim>\<open>%m\<close> is \<^verbatim>\<open>1[0-2]|0[1-9]|[1-9]\<close> and \<^verbatim>\<open>%d\<close> is
  \<^verbatim>\<open>3[0-1]|[1-2]\d|0[1-9]|[1-9]| [1-9]\<close>: the leading zero of a month or a day is
  optional. The whole text must be consumed, and the fields must be a date that exists
  (years 1 to 9999); otherwise \<^verbatim>\<open>ValueError\<close> is raised, here \<open>None\<close>.
\<close>

definition month_text :: "string \<Rightarrow> bool" where
  "month_text m =
     (case m of
        [a] \<Rightarrow> a \<in> set ''123456789''
      | [a, b] \<Rightarrow> (a = CHR ''1'' \<and> b \<in> set ''012'') \<or> (a = CHR ''0'' \<and> b \<in> set ''123456789'')
      | _ \<Rightarrow> False)"

definition day_text :: "string \<Rightarrow> bool" where
  "day_text d =
     (case d of
        [a] \<Rightarrow> a \<in> set ''123456789''
      | [a, b] \<Rightarrow> (a = CHR ''3'' \<and> b \<in> set ''01'') \<or> (a \<in> set ''12'' \<and> digit b)
                 \<or> (a = CHR ''0'' \<and> b \<in> set ''123456789'')
                 \<or> (a = CHR '' '' \<and> b \<in> set ''123456789'')
      | _ \<Rightarrow> False)"

definition strptime_Ymd :: "string \<Rightarrow> date option" where
  "strptime_Ymd s =
     (case split_on (CHR ''-'') s of
        [y, m, d] \<Rightarrow>
          if length y = 4 \<and> list_all digit y \<and> month_text m \<and> day_text d
          then (let yy = int_of_digits y; mm = int_of_digits m;
                    dd = int_of_digits (filter digit d)
                in if 1 \<le> yy \<and> dd \<le> days_in_month yy mm then Some (Date yy mm dd) else None)
          else None
      | _ \<Rightarrow> None)"

definition strftime_Ymd :: "date \<Rightarrow> string" where
  "strftime_Ymd t =
     zfill 4 (str_nat (year t)) @ ''-'' @ zfill 2 (str_nat (month t)) @ ''-''
       @ zfill 2 (str_nat (day t))"

subsection \<open>Decimals and floats\<close>

text \<open>
  A \<^verbatim>\<open>decimal.Decimal\<close> is a sign, a coefficient and an exponent, as \<^verbatim>\<open>as_tuple()\<close>
  gives them. \<open>Decimal\<close> is the constructor from text, \<open>None\<close> where it raises
  \<^verbatim>\<open>InvalidOperation\<close>. The model covers the plain numerals (sign, digits, one point);
  exponent notation, \<^verbatim>\<open>Infinity\<close>, \<^verbatim>\<open>NaN\<close>, underscores and surrounding white space
  use characters that the spinbox's key rule never admits and are left out.
  A widget's \<^verbatim>\<open>from\<close> and \<^verbatim>\<open>to\<close> options are floats, finite or infinite; Python
  compares a Decimal with a float by their exact values.
\<close>

datatype decimal = Dec (negative: bool) (coefficient: nat) (exponent: int)

datatype number = NegInf | Num rat | PosInf

definition Decimal :: "string \<Rightarrow> decimal option" where
  "Decimal s =
     (let (sgn, body) =
            (case s of
               [] \<Rightarrow> (False, s)
             | c # r \<Rightarrow> if c = CHR ''-'' then (True, r)
                        else if c = CHR ''+'' then (False, r) else (False, s))
      in case split_on (CHR ''.'') body of
           [i] \<Rightarrow> if isdigit i then Some (Dec sgn (int_of_digits i) 0) else None
         | [i, f] \<Rightarrow>
             if list_all digit i \<and> list_all digit f \<and> i @ f \<noteq> []
             then Some (Dec sgn (int_of_digits (i @ f)) (- int (length f))) else None
         | _ \<Rightarrow> None)"

function strip_zeros :: "nat \<Rightarrow> int \<Rightarrow> nat \<times> int" where
  "strip_zeros c e = (if c \<noteq> 0 \<and> c mod 10 = 0 then strip_zeros (c div 10) (e + 1) else (c, e))"
  by pat_completeness auto
termination
  by (relation "measure fst") auto

definition normalize_dec :: "decimal \<Rightarrow> decimal" where
  "normalize_dec d =
     (if coefficient d = 0 then Dec (negative d) 0 0
      else (let (c, e) = strip_zeros (coefficient d) (exponent d) in Dec (negative d) c e))"

definition dec_value :: "decimal \<Rightarrow> rat" where
  "dec_value d = (if negative d then - 1 else 1) * of_nat (coefficient d) * 10 powi exponent d"

fun num_less :: "number \<Rightarrow> number \<Rightarrow> bool" where
  "num_less NegInf b = (b \<noteq> NegInf)"
| "num_less (Num x) NegInf = False"
| "num_less (Num x) (Num y) = (x < y)"
| "num_less (Num x) PosInf = True"
| "num_less PosInf b = False"

section \<open>The validated widgets (data_entry_app_class.py)\<close>

text \<open>
  Exceptions that leave a callback are values: \<open>Inl\<close> of the exception.
\<close>

datatype exn = TclError | ValueError string | KeyError string | InvalidOperation

text \<open>
  A widget is its class and the part of its Tk state the validation code reads or writes:
  \<open>content\<close> is what \<^verbatim>\<open>self.get()\<close> returns, \<open>error\<close> the value of the variable
  \<^verbatim>\<open>self.error\<close>, \<open>opt_foreground\<close>, \<open>opt_state\<close>, \<open>opt_values\<close>, \<open>opt_from\<close> and
  \<open>opt_to\<close> the widget options of those names, \<open>cursor\<close> the insertion cursor set by
  \<^verbatim>\<open>icursor\<close>, and \<open>precision\<close> the attribute that \<^verbatim>\<open>ValidatedSpinbox.__init__\<close> computes.
\<close>

datatype widget_class = RequiredEntry | DateEntry | ValidatedCombobox | ValidatedSpinbox

record widget =
  cls :: widget_class
  content :: string
  error :: string
  opt_foreground :: string
  opt_state :: string
  cursor :: nat
  opt_values :: "string list"
  opt_from :: number
  opt_to :: number
  precision :: int

definition toggle_error :: "bool \<Rightarrow> widget \<Rightarrow> widget" where
  "toggle_error on w = w\<lparr>opt_foreground := (if on then ''red'' else ''black'')\<rparr>"

subsection \<open>RequiredEntry\<close>

definition RequiredEntry_focusout_validate :: "widget \<Rightarrow> bool \<times> widget" where
  "RequiredEntry_focusout_validate w =
     (if content w = [] then (False, w\<lparr>error := ''A value is required''\<rparr>) else (True, w))"

subsection \<open>DateEntry\<close>

definition DateEntry_key_validate :: "string \<Rightarrow> string \<Rightarrow> string \<Rightarrow> bool" where
  "DateEntry_key_validate action index char =
     (if action = ''0'' then True
      else if index \<in> set [''0'', ''1'', ''2'', ''3'', ''5'', ''6'', ''8'', ''9''] then isdigit char
      else if index \<in> set [''4'', ''7''] then char = ''-''
      else False)"

definition DateEntry_focusout_validate :: "widget \<Rightarrow> bool \<times> widget" where
  "DateEntry_focusout_validate w =
     (let (valid, w1) =
            (if content w = [] then (False, w\<lparr>error := ''A value is required''\<rparr>) else (True, w))
      in case strptime_Ymd (content w1) of
           None \<Rightarrow> (False, w1\<lparr>error := ''Invalid date''\<rparr>)
         | Some t \<Rightarrow> (valid, w1))"

subsection \<open>ValidatedCombobox\<close>

definition ValidatedCombobox_key_validate :: "widget \<Rightarrow> string \<Rightarrow> string \<Rightarrow> bool \<times> widget" where
  "ValidatedCombobox_key_validate w proposed action =
     (if action = ''0'' then (True, w\<lparr>content := []\<rparr>)
      else
        (let matching = filter (\<lambda>x. startswith (lower x) (lower proposed)) (opt_values w)
         in if length matching = 0 then (False, w)
            else if length matching = 1
            then (let w1 = w\<lparr>content := hd matching\<rparr>
                  in (False, w1\<lparr>cursor := length (content w1)\<rparr>))
            else (True, w)))"

definition ValidatedCombobox_focusout_validate :: "widget \<Rightarrow> bool \<times> widget" where
  "ValidatedCombobox_focusout_validate w =
     (if content w = [] then (False, w\<lparr>error := ''A value is required''\<rparr>) else (True, w))"

subsection \<open>ValidatedSpinbox\<close>

text \<open>
  \<^verbatim>\<open>__init__\<close> computes \<open>precision\<close> from the increment, read as text
  (\<^verbatim>\<open>str(kwargs.get('increment', '1.0'))\<close>): the exponent of the normalised Decimal.
\<close>

definition ValidatedSpinbox_precision :: "string \<Rightarrow> int option" where
  "ValidatedSpinbox_precision increment =
     (case Decimal increment of None \<Rightarrow> None | Some d \<Rightarrow> Some (exponent (normalize_dec d)))"

definition ValidatedSpinbox_key_validate ::
    "widget \<Rightarrow> string \<Rightarrow> string \<Rightarrow> string \<Rightarrow> string \<Rightarrow> string \<Rightarrow> exn + bool" where
  "ValidatedSpinbox_key_validate w char index current proposed action =
     (if action = ''0'' then Inr True
      else
        (let min_val = opt_from w; max_val = opt_to w;
             no_negative = (\<not> num_less min_val (Num 0));
             no_decimal = (precision w \<ge> 0)
         in if (\<not> py_in char ''-1234567890.'')
               \<or> (char = ''-'' \<and> (no_negative \<or> index \<noteq> ''0''))
               \<or> (char = ''.'' \<and> (no_decimal \<or> py_in ''.'' current))
            then Inr False
            else if py_in proposed ''-.'' then Inr True
            else (case Decimal proposed of
                    None \<Rightarrow> Inl InvalidOperation
                  | Some d \<Rightarrow>
                      if num_less max_val (Num (dec_value d)) \<or> exponent d < precision w
                      then Inr False else Inr True)))"

text \<open>
  The focus-out messages print the bound with Python's \<^verbatim>\<open>str\<close> of a float, which is
  the parameter \<open>str_float\<close>.
\<close>

definition ValidatedSpinbox_focusout_validate ::
    "(number \<Rightarrow> string) \<Rightarrow> widget \<Rightarrow> bool \<times> widget" where
  "ValidatedSpinbox_focusout_validate str_float w =
     (let val = content w; min_val = opt_from w; max_val = opt_to w
      in case Decimal val of
           None \<Rightarrow> (False, w\<lparr>error := ''Invalid number string: '' @ val\<rparr>)
         | Some d_value \<Rightarrow>
             (let (valid, w1) =
                    (if num_less (Num (dec_value d_value)) min_val
                     then (False, w\<lparr>error := ''Value is too low (min '' @ str_float min_val @ '')''\<rparr>)
                     else (True, w))
              in if num_less max_val (Num (dec_value d_value))
                 then (False, w1\<lparr>error := ''Value is too high (max '' @ str_float max_val @ '')''\<rparr>)
                 else (valid, w1)))"

subsection \<open>ValidatedMixin\<close>

text \<open>
  The two event-specific methods, resolved by the widget's class: a class that does not
  override one inherits the mixin's placeholder, which returns \<^verbatim>\<open>True\<close>.
\<close>

definition focusout_validate :: "(number \<Rightarrow> string) \<Rightarrow> widget \<Rightarrow> exn + bool \<times> widget" where
  "focusout_validate str_float w =
     (case cls w of
        RequiredEntry \<Rightarrow> Inr (RequiredEntry_focusout_validate w)
      | DateEntry \<Rightarrow> Inr (DateEntry_focusout_validate w)
      | ValidatedCombobox \<Rightarrow> Inr (ValidatedCombobox_focusout_validate w)
      | ValidatedSpinbox \<Rightarrow> Inr (ValidatedSpinbox_focusout_validate str_float w))"

definition key_validate ::
    "widget \<Rightarrow> string \<Rightarrow> string \<Rightarrow> string \<Rightarrow> string \<Rightarrow> string \<Rightarrow> exn + bool \<times> widget" where
  "key_validate w proposed current char index action =
     (case cls w of
        RequiredEntry \<Rightarrow> Inr (True, w)
      | DateEntry \<Rightarrow> Inr (DateEntry_key_validate action index char, w)
      | ValidatedCombobox \<Rightarrow> Inr (ValidatedCombobox_key_validate w proposed action)
      | ValidatedSpinbox \<Rightarrow>
          (case ValidatedSpinbox_key_validate w char index current proposed action of
             Inl e \<Rightarrow> Inl e
           | Inr valid \<Rightarrow> Inr (valid, w)))"

definition validate ::
    "(number \<Rightarrow> string) \<Rightarrow> widget \<Rightarrow> string \<Rightarrow> string \<Rightarrow> string \<Rightarrow> string \<Rightarrow> string \<Rightarrow> string
      \<Rightarrow> exn + bool \<times> widget" where
  "validate str_float w proposed current char event index action =
     (let w1 = toggle_error False (w\<lparr>error := []\<rparr>)
      in if opt_state w1 = ''disabled'' then Inr (True, w1)
         else if event = ''focusout'' then focusout_validate str_float w1
         else if event = ''key'' then key_validate w1 proposed current char index action
         else Inr (True, w1))"

definition focusout_invalid :: "widget \<Rightarrow> widget" where
  "focusout_invalid w = toggle_error True w"

definition key_invalid :: "widget \<Rightarrow> widget" where
  "key_invalid w = w"

definition invalid :: "widget \<Rightarrow> string \<Rightarrow> widget" where
  "invalid w event =
     (if event = ''focusout'' then focusout_invalid w
      else if event = ''key'' then key_invalid w
      else w)"

definition trigger_focusout_validation :: "(number \<Rightarrow> string) \<Rightarrow> widget \<Rightarrow> exn + bool \<times> widget" where
  "trigger_focusout_validation str_float w =
     (case validate str_float w [] [] [] ''focusout'' [] [] of
        Inl e \<Rightarrow> Inl e
      | Inr (valid, w1) \<Rightarrow> Inr (valid, if \<not> valid then focusout_invalid w1 else w1))"

text \<open>
  Tk's protocol for the two registered commands: on a validation event it runs
  \<^verbatim>\<open>validatecommand\<close> (\<open>validate\<close>) and, when that returns false, \<^verbatim>\<open>invalidcommand\<close>
  (\<open>invalid\<close>) with the same substitutions.
\<close>

definition validation_event ::
    "(number \<Rightarrow> string) \<Rightarrow> widget \<Rightarrow> string \<Rightarrow> string \<Rightarrow> string \<Rightarrow> string \<Rightarrow> string \<Rightarrow> string
      \<Rightarrow> exn + bool \<times> widget" where
  "validation_event str_float w proposed current char event index action =
     (case validate str_float w proposed current char event index action of
        Inl e \<Rightarrow> Inl e
      | Inr (valid, w1) \<Rightarrow> Inr (valid, if valid then w1 else invalid w1 event))"

section \<open>The stand-alone DateEntry (DateEntry.py)\<close>

definition DateEntry_py_toggle_error :: "string \<Rightarrow> widget \<Rightarrow> widget" where
  "DateEntry_py_toggle_error e w =
     w\<lparr>error := e, opt_foreground := (if e \<noteq> [] then ''red'' else ''black'')\<rparr>"

definition DateEntry_py_validate ::
    "widget \<Rightarrow> string \<Rightarrow> string \<Rightarrow> string \<Rightarrow> string \<Rightarrow> bool \<times> widget" where
  "DateEntry_py_validate w char index event action =
     (let w1 = DateEntry_py_toggle_error [] w
      in if event = ''key''
         then (if action = ''0'' then (True, w1)
               else if index \<in> set [''0'', ''1'', ''2'', ''3'', ''5'', ''6'', ''8'', ''9'']
               then (isdigit char, w1)
               else if index \<in> set [''4'', ''7''] then (char = ''-'', w1)
               else (False, w1))
         else if event = ''focusout''
         then (case strptime_Ymd (content w1) of None \<Rightarrow> (False, w1) | Some t \<Rightarrow> (True, w1))
         else (True, w1))"

definition DateEntry_py_on_invalid :: "widget \<Rightarrow> string \<Rightarrow> widget" where
  "DateEntry_py_on_invalid w event =
     (if event \<noteq> ''key'' then DateEntry_py_toggle_error ''Not a valid date'' w else w)"

section \<open>The form and the save handlers\<close>

text \<open>
  A Tk control variable holds text; \<^verbatim>\<open>get()\<close> of an \<^verbatim>\<open>IntVar\<close> or a \<^verbatim>\<open>DoubleVar\<close>
  asks the Tcl interpreter to read that text as a number and raises \<^verbatim>\<open>TclError\<close> when it
  cannot. What the two \<^verbatim>\<open>get()\<close> methods return for a text are the parameters \<open>getint\<close>
  and \<open>getdouble\<close>, \<open>None\<close> where \<^verbatim>\<open>TclError\<close> is raised; the type \<open>'f\<close> stands for
  Python's floats. A \<^verbatim>\<open>BooleanVar\<close> is only ever written by its check button and by
  \<^verbatim>\<open>set(False)\<close>, so it holds a truth value. \<open>var_text\<close> is the text of a variable,
  which is the contents of the widget that edits it.
\<close>

datatype 'f pyval = PyStr string | PyInt int | PyFloat 'f | PyBool bool

datatype tkvar = StringVar string | IntVar string | DoubleVar string | BooleanVar bool

record 'f tcl =
  getint :: "string \<Rightarrow> int option"
  getdouble :: "string \<Rightarrow> 'f option"

fun var_get :: "'f tcl \<Rightarrow> tkvar \<Rightarrow> 'f pyval option" where
  "var_get tk (StringVar s) = Some (PyStr s)"
| "var_get tk (IntVar s) = map_option PyInt (getint tk s)"
| "var_get tk (DoubleVar s) = map_option PyFloat (getdouble tk s)"
| "var_get tk (BooleanVar b) = Some (PyBool b)"


fun truthy :: "('f::zero) pyval \<Rightarrow> bool" where
  "truthy (PyStr s) = (s \<noteq> [])"
| "truthy (PyInt i) = (i \<noteq> 0)"
| "truthy (PyFloat x) = (x \<noteq> 0)"
| "truthy (PyBool b) = b"

text \<open>
  \<^verbatim>\<open>reset\<close> and \<^verbatim>\<open>on_reset\<close>: \<^verbatim>\<open>set(False)\<close> on a \<^verbatim>\<open>BooleanVar\<close>, \<^verbatim>\<open>set('')\<close> on any
  other variable.
\<close>

fun var_reset :: "tkvar \<Rightarrow> tkvar" where
  "var_reset (BooleanVar b) = BooleanVar False"
| "var_reset (StringVar s) = StringVar []"
| "var_reset (IntVar s) = IntVar []"
| "var_reset (DoubleVar s) = DoubleVar []"

text \<open>
  A Python \<^verbatim>\<open>dict\<close> keeps its keys in insertion order: an association list.
  \<open>dict_set\<close> is the assignment \<^verbatim>\<open>d[k] = v\<close>.
\<close>

type_synonym 'v dict = "(string \<times> 'v) list"

definition dict_set :: "'v dict \<Rightarrow> string \<Rightarrow> 'v \<Rightarrow> 'v dict" where
  "dict_set d k v =
     (if k \<in> set (map fst d) then map (\<lambda>(k', v'). if k' = k then (k', v) else (k', v')) d
      else d @ [(k, v)])"

definition reset :: "tkvar dict \<Rightarrow> tkvar dict" where
  "reset vars = map (\<lambda>(key, var). (key, var_reset var)) vars"

subsection \<open>DataRecordForm.get and Application._on_save (data_entry_app_class.py)\<close>

fun get_loop :: "('f::zero) tcl \<Rightarrow> bool \<Rightarrow> tkvar dict \<Rightarrow> 'f pyval dict \<Rightarrow> exn + 'f pyval dict" where
  "get_loop tk fault [] data = Inr data"
| "get_loop tk fault ((key, variable) # rest) data =
     (if fault \<and> key \<in> set [''Light'', ''Humidity'', ''Temperature'']
      then get_loop tk fault rest (dict_set data key (PyStr []))
      else (case var_get tk variable of
              None \<Rightarrow> Inl (ValueError (''Error in field: '' @ key @ ''. Data is not saved!''))
            | Some v \<Rightarrow> get_loop tk fault rest (dict_set data key v)))"

definition DataRecordForm_get :: "('f::zero) tcl \<Rightarrow> tkvar dict \<Rightarrow> exn + 'f pyval dict" where
  "DataRecordForm_get tk vars =
     (case map_of vars ''Equipment Fault'' of
        None \<Rightarrow> Inl (KeyError ''Equipment Fault'')
      | Some fv \<Rightarrow>
          (case var_get tk fv of
             None \<Rightarrow> Inl TclError
           | Some fault \<Rightarrow> get_loop tk (truthy fault) vars []))"

text \<open>
  The file system maps a file name to the rows of the CSV file of that name, \<open>None\<close>
  when the file does not exist. A row is the list of its cells.
\<close>

type_synonym 'f files = "string \<Rightarrow> 'f pyval list list option"

definition csv_append :: "bool \<Rightarrow> 'f pyval dict \<Rightarrow> 'f pyval list list \<Rightarrow> 'f pyval list list" where
  "csv_append newfile data rows =
     rows @ (if newfile then [map (\<lambda>(k, v). PyStr k) data] else []) @ [map snd data]"

definition open_append :: "'f files \<Rightarrow> string \<Rightarrow> 'f pyval list list" where
  "open_append fs filename = (case fs filename of None \<Rightarrow> [] | Some rows \<Rightarrow> rows)"

record application =
  app_vars :: "tkvar dict"
  app_status :: string
  app_records_saved :: nat

definition Application_on_save ::
    "('f::zero) tcl \<Rightarrow> date \<Rightarrow> 'f files \<Rightarrow> application \<Rightarrow> exn + 'f files \<times> application" where
  "Application_on_save tk today fs a =
     (let datestring = strftime_Ymd today;
          filename = ''abq_data_record_'' @ datestring @ ''.csv'';
          newfile = (fs filename = None)
      in case DataRecordForm_get tk (app_vars a) of
           Inl (ValueError e) \<Rightarrow> Inr (fs, a\<lparr>app_status := e\<rparr>)
         | Inl e \<Rightarrow> Inl e
         | Inr data \<Rightarrow>
             (let fs1 = fs(filename \<mapsto> csv_append newfile data (open_append fs filename));
                  a1 = a\<lparr>app_records_saved := app_records_saved a + 1\<rparr>;
                  a2 = a1\<lparr>app_status := str_nat (app_records_saved a1) @ '' records saved this session.''\<rparr>
              in Inr (fs1, a2\<lparr>app_vars := reset (app_vars a2)\<rparr>)))"

subsection \<open>on_save (data_entry_app.py)\<close>

text \<open>
  The script keeps its state in globals; the notes are read from the text widget, whose
  contents up to \<^verbatim>\<open>END\<close> end with a newline. \<open>on_save_loop\<close> is the loop of
  \<^verbatim>\<open>on_save\<close>; \<open>Inl key\<close> is its early return at the field \<open>key\<close>.
\<close>

record globals =
  variables :: "tkvar dict"
  records_saved :: nat
  notes_inp :: string
  status_variable :: string

definition on_reset :: "globals \<Rightarrow> globals" where
  "on_reset g = g\<lparr>variables := reset (variables g), notes_inp := []\<rparr>"

fun on_save_loop :: "('f::zero) tcl \<Rightarrow> bool \<Rightarrow> tkvar dict \<Rightarrow> 'f pyval dict \<Rightarrow> string + 'f pyval dict" where
  "on_save_loop tk fault [] data = Inr data"
| "on_save_loop tk fault ((key, variable) # rest) data =
     (if fault \<and> key \<in> set [''Light'', ''Humidity'', ''Temperature'']
      then on_save_loop tk fault rest (dict_set data key (PyStr []))
      else (case var_get tk variable of
              None \<Rightarrow> Inl key
            | Some v \<Rightarrow> on_save_loop tk fault rest (dict_set data key v)))"

definition on_save ::
    "('f::zero) tcl \<Rightarrow> date \<Rightarrow> 'f files \<Rightarrow> globals \<Rightarrow> exn + 'f files \<times> globals" where
  "on_save tk today fs g =
     (let datestring = strftime_Ymd today;
          filename = ''abq_data_record_'' @ datestring @ ''.csv'';
          newfile = (fs filename = None)
      in case map_of (variables g) ''Equipment Fault'' of
           None \<Rightarrow> Inl (KeyError ''Equipment Fault'')
         | Some fv \<Rightarrow>
             (case var_get tk fv of
                None \<Rightarrow> Inl TclError
              | Some fault \<Rightarrow>
                  (case on_save_loop tk (truthy fault) (variables g) [] of
                     Inl key \<Rightarrow>
                       Inr (fs, g\<lparr>status_variable :=
                                   ''Error in field: '' @ key @ ''. Data was not saved!''\<rparr>)
                   | Inr data0 \<Rightarrow>
                       (let data = dict_set data0 ''Notes'' (PyStr (notes_inp g @ [CHR 0x0A]));
                            fs1 = fs(filename \<mapsto> csv_append newfile data (open_append fs filename));
                            g1 = g\<lparr>records_saved := records_saved g + 1\<rparr>;
                            g2 = g1\<lparr>status_variable :=
                                      str_nat (records_saved g1) @ '' records saved this session''\<rparr>
                        in Inr (fs1, on_reset g2)))))"

subsection \<open>The form that DataRecordForm.__init__ builds\<close>

text \<open>
  A new widget of a class, with Tk's defaults; a ValidatedSpinbox defaults to the bounds
  \<^verbatim>\<open>-Infinity\<close> and \<^verbatim>\<open>Infinity\<close>. \<open>ValidatedSpinbox_init\<close> is the constructor with its bounds
  and the text of its increment (a text that is no numeral makes the constructor raise,
  here \<open>None\<close>).
\<close>

definition init_widget :: "widget_class \<Rightarrow> widget" where
  "init_widget c =
     \<lparr>cls = c, content = [], error = [], opt_foreground = [], opt_state = ''normal'',
      cursor = 0, opt_values = [], opt_from = NegInf, opt_to = PosInf, precision = 0\<rparr>"

definition ValidatedSpinbox_init :: "number \<Rightarrow> number \<Rightarrow> string \<Rightarrow> widget option" where
  "ValidatedSpinbox_init lo hi increment =
     (case ValidatedSpinbox_precision increment of
        None \<Rightarrow> None
      | Some p \<Rightarrow> Some ((init_widget ValidatedSpinbox)\<lparr>opt_from := lo, opt_to := hi, precision := p\<rparr>))"





text \<open>
  An instance of the interpreter's readers on plain numerals, for the examples: it reads
  a text of digits as an integer and a plain numeral as its exact value.
\<close>

definition plain_tcl :: "rat tcl" where
  "plain_tcl =
     \<lparr>getint = (\<lambda>s. if isdigit s then Some (int (int_of_digits s)) else None),
      getdouble = (\<lambda>s. map_option dec_value (Decimal s))\<rparr>"

subsection \<open>What the loop of a save handler does with one field\<close>

text \<open>
  Both handlers run the same loop over the variables. With the Equipment Fault value
  \<open>fault\<close>, a field is \<open>blanked\<close> when it is one of the three environmental fields and
  \<open>fault\<close> holds; it is \<open>unreadable\<close> when it is not blanked and reading its variable
  raises \<^verbatim>\<open>TclError\<close>; \<open>field_value\<close> is what the loop stores for it otherwise.
\<close>

definition blanked :: "bool \<Rightarrow> string \<Rightarrow> bool" where
  "blanked fault key \<longleftrightarrow> fault \<and> key \<in> set [''Light'', ''Humidity'', ''Temperature'']"

definition unreadable :: "'f tcl \<Rightarrow> bool \<Rightarrow> string \<times> tkvar \<Rightarrow> bool" where
  "unreadable tk fault kv \<longleftrightarrow> \<not> blanked fault (fst kv) \<and> var_get tk (snd kv) = None"

definition field_value :: "'f tcl \<Rightarrow> bool \<Rightarrow> string \<times> tkvar \<Rightarrow> 'f pyval option" where
  "field_value tk fault kv = (if blanked fault (fst kv) then Some (PyStr []) else var_get tk (snd kv))"

subsection \<open>Example states\<close>

text \<open>
  A filled form whose Equipment Fault box is checked, with texts that are no numbers in
  two of the three environmental fields; and the same form with the box unchecked.
\<close>

definition example_vars :: "bool \<Rightarrow> tkvar dict" where
  "example_vars fault =
     [(''Date'', StringVar ''2026-11-03''), (''Time'', StringVar ''8:00''),
      (''Technician'', StringVar ''Ada''), (''Lab'', StringVar ''A''), (''Plot'', IntVar ''3''),
      (''Seed Sample'', StringVar ''AX477''), (''Humidity'', DoubleVar []),
      (''Light'', DoubleVar ''x''), (''Temperature'', DoubleVar ''21.5''),
      (''Equipment Fault'', BooleanVar fault), (''Plants'', IntVar ''7''),
      (''Blossoms'', IntVar ''12''), (''Fruit'', IntVar ''0''),
      (''Min Height'', DoubleVar ''1.5''), (''Max Height'', DoubleVar ''20''),
      (''Med Height'', DoubleVar ''11.25''), (''Notes'', StringVar [])]"

definition example_record :: "rat pyval dict" where
  "example_record =
     [(''Date'', PyStr ''2026-11-03''), (''Time'', PyStr ''8:00''),
      (''Technician'', PyStr ''Ada''), (''Lab'', PyStr ''A''), (''Plot'', PyInt 3),
      (''Seed Sample'', PyStr ''AX477''), (''Humidity'', PyStr []), (''Light'', PyStr []),
      (''Temperature'', PyStr []), (''Equipment Fault'', PyBool True), (''Plants'', PyInt 7),
      (''Blossoms'', PyInt 12), (''Fruit'', PyInt 0), (''Min Height'', PyFloat (3 / 2)),
      (''Max Height'', PyFloat 20), (''Med Height'', PyFloat (45 / 4)), (''Notes'', PyStr [])]"

definition example_app :: "bool \<Rightarrow> application" where
  "example_app fault = \<lparr>app_vars = example_vars fault, app_status = [], app_records_saved = 0\<rparr>"

text \<open>The script has no variable for the notes: they are in the text widget.\<close>

definition example_globals :: "bool \<Rightarrow> globals" where
  "example_globals fault =
     \<lparr>variables = filter (\<lambda>kv. fst kv \<noteq> ''Notes'') (example_vars fault), records_saved = 0,
      notes_inp = ''dry soil'', status_variable = []\<rparr>"


section \<open>Properties of the key and focus-out rules\<close>








lemma key_validate_keeps_error:
  "key_validate w proposed current char index action = Inr (valid, w') \<Longrightarrow>
     error w' = error w \<and> opt_foreground w' = opt_foreground w"
  by (cases "cls w")
     (auto simp: key_validate_def ValidatedCombobox_key_validate_def Let_def
           split: if_splits sum.splits)

lemma focusout_validate_sets_error:
  "focusout_validate sf w = Inr (valid, w') \<Longrightarrow> error w = [] \<Longrightarrow>
     (error w' \<noteq> [] \<longleftrightarrow> \<not> valid) \<and> opt_foreground w' = opt_foreground w"
  by (cases "cls w")
     (auto simp: focusout_validate_def RequiredEntry_focusout_validate_def
           DateEntry_focusout_validate_def ValidatedCombobox_focusout_validate_def
           ValidatedSpinbox_focusout_validate_def Let_def
           split: if_splits option.splits)

lemma validate_error_state:
  assumes "validate sf w proposed current char event index action = Inr (valid, w')"
  shows "(error w' \<noteq> [] \<longleftrightarrow> event = ''focusout'' \<and> \<not> valid) \<and> opt_foreground w' = ''black''"
proof -
  let ?w1 = "toggle_error False (w\<lparr>error := []\<rparr>)"
  have clear: "error ?w1 = []" "opt_foreground ?w1 = ''black''"
    by (simp_all add: toggle_error_def)
  consider (disabled) "opt_state w = ''disabled''"
    | (focusout) "opt_state w \<noteq> ''disabled''" "event = ''focusout''"
    | (key) "opt_state w \<noteq> ''disabled''" "event = ''key''"
    | (other) "opt_state w \<noteq> ''disabled''" "event \<noteq> ''focusout''" "event \<noteq> ''key''"
    by blast
  then show ?thesis
  proof cases
    case disabled
    with assms show ?thesis by (auto simp add: validate_def Let_def toggle_error_def)
  next
    case focusout
    with assms have "focusout_validate sf ?w1 = Inr (valid, w')"
      by (simp add: validate_def Let_def toggle_error_def)
    from focusout_validate_sets_error[OF this clear(1)] clear(2) focusout(2) show ?thesis by simp
  next
    case key
    with assms have "key_validate ?w1 proposed current char index action = Inr (valid, w')"
      by (simp add: validate_def Let_def toggle_error_def)
    from key_validate_keeps_error[OF this] clear key(2) show ?thesis by simp
  next
    case other
    with assms show ?thesis by (auto simp add: validate_def Let_def toggle_error_def)
  qed
qed

text \<open>
  Claim C4, as amended. Each widget has its own error text. A validation call starts from
  a cleared error and a black foreground, whatever they were before; after the call and
  the invalid-handler that follows a failure, the error is non-empty exactly when this
  call was a focus-out validation that failed, and the foreground is red in exactly that
  case and black otherwise. So a non-empty error is present exactly when the most recent
  validation call on the widget was a failed focus-out validation.
\<close>

theorem C4_error_state_after_validation:
  "(validation_event sf w proposed current char event index action = Inr (valid, w') \<longrightarrow>
      (error w' \<noteq> [] \<longleftrightarrow> event = ''focusout'' \<and> \<not> valid)
    \<and> (opt_foreground w' = ''red'' \<longleftrightarrow> event = ''focusout'' \<and> \<not> valid)
    \<and> (opt_foreground w' = ''black'' \<longleftrightarrow> \<not> (event = ''focusout'' \<and> \<not> valid)))
   \<and> (trigger_focusout_validation sf w = Inr (valid, w') \<longrightarrow>
      (error w' \<noteq> [] \<longleftrightarrow> \<not> valid) \<and> (opt_foreground w' = ''red'' \<longleftrightarrow> \<not> valid))
   \<and> validate sf (w\<lparr>error := e, opt_foreground := f\<rparr>) proposed current char event index action
       = validate sf w proposed current char event index action"
proof (intro conjI impI)
  assume a: "validation_event sf w proposed current char event index action = Inr (valid, w')"
  then obtain w1 where v: "validate sf w proposed current char event index action = Inr (valid, w1)"
    and w': "w' = (if valid then w1 else invalid w1 event)"
    by (auto simp: validation_event_def split: sum.splits)
  note st = validate_error_state[OF v]
  show "error w' \<noteq> [] \<longleftrightarrow> event = ''focusout'' \<and> \<not> valid"
    using st w' by (auto simp: invalid_def focusout_invalid_def key_invalid_def toggle_error_def)
  show "opt_foreground w' = ''red'' \<longleftrightarrow> event = ''focusout'' \<and> \<not> valid"
    using st w' by (auto simp: invalid_def focusout_invalid_def key_invalid_def toggle_error_def)
  show "opt_foreground w' = ''black'' \<longleftrightarrow> \<not> (event = ''focusout'' \<and> \<not> valid)"
    using st w' by (auto simp: invalid_def focusout_invalid_def key_invalid_def toggle_error_def)
next
  assume a: "trigger_focusout_validation sf w = Inr (valid, w')"
  then obtain w1 where v: "validate sf w [] [] [] ''focusout'' [] [] = Inr (valid, w1)"
    and w': "w' = (if \<not> valid then focusout_invalid w1 else w1)"
    by (auto simp: trigger_focusout_validation_def split: sum.splits)
  note st = validate_error_state[OF v]
  show "error w' \<noteq> [] \<longleftrightarrow> \<not> valid"
    using st w' by (auto simp: focusout_invalid_def toggle_error_def)
  show "opt_foreground w' = ''red'' \<longleftrightarrow> \<not> valid"
    using st w' by (auto simp: focusout_invalid_def toggle_error_def)
next
  show "validate sf (w\<lparr>error := e, opt_foreground := f\<rparr>) proposed current char event index action
       = validate sf w proposed current char event index action"
    by (simp add: validate_def toggle_error_def)
qed

text \<open>
  The claim as first stated ties the error to the most recent focus-out validation. On an
  empty RequiredEntry the focus-out validation fails and sets the error; the next key
  event clears it, although the most recent focus-out validation has failed.
\<close>

theorem C4_stale_focusout_counterexample:
  "validation_event (\<lambda>n. []) (init_widget RequiredEntry) [] [] [] ''focusout'' ''-1'' ''-1''
     = Inr (False, (init_widget RequiredEntry)\<lparr>error := ''A value is required'', opt_foreground := ''red''\<rparr>)
   \<and> validation_event (\<lambda>n. [])
        ((init_widget RequiredEntry)\<lparr>error := ''A value is required'', opt_foreground := ''red''\<rparr>)
        ''a'' [] ''a'' ''key'' ''0'' ''1''
     = Inr (True, (init_widget RequiredEntry)\<lparr>opt_foreground := ''black''\<rparr>)
   \<and> error ((init_widget RequiredEntry)\<lparr>opt_foreground := ''black''\<rparr>) = []"
  by (simp add: validation_event_def validate_def focusout_validate_def key_validate_def
        RequiredEntry_focusout_validate_def invalid_def focusout_invalid_def toggle_error_def
        init_widget_def Let_def)

theorem C4_error_state_after_validation_witness:
  "validation_event (\<lambda>n. []) (init_widget RequiredEntry) [] [] [] ''focusout'' ''-1'' ''-1''
     = Inr (False, (init_widget RequiredEntry)\<lparr>error := ''A value is required'', opt_foreground := ''red''\<rparr>)
   \<and> error ((init_widget RequiredEntry)\<lparr>error := ''A value is required'', opt_foreground := ''red''\<rparr>) \<noteq> []
   \<and> opt_foreground ((init_widget RequiredEntry)\<lparr>error := ''A value is required'', opt_foreground := ''red''\<rparr>)
       = ''red''
   \<and> trigger_focusout_validation (\<lambda>n. []) ((init_widget RequiredEntry)\<lparr>content := ''Ada''\<rparr>)
       = Inr (True, (init_widget RequiredEntry)\<lparr>content := ''Ada'', opt_foreground := ''black''\<rparr>)
   \<and> error ((init_widget RequiredEntry)\<lparr>content := ''Ada'', opt_foreground := ''black''\<rparr>) = []"
  using C4_error_state_after_validation
          [of "\<lambda>n. []" "init_widget RequiredEntry" "[]" "[]" "[]" "''focusout''" "''-1''" "''-1''" False
              "(init_widget RequiredEntry)\<lparr>error := ''A value is required'', opt_foreground := ''red''\<rparr>"]
        C4_error_state_after_validation
          [of "\<lambda>n. []" "(init_widget RequiredEntry)\<lparr>content := ''Ada''\<rparr>" "[]" "[]" "[]" "''focusout''" "''-1''" "''-1''" True
              "(init_widget RequiredEntry)\<lparr>content := ''Ada'', opt_foreground := ''black''\<rparr>"]
  by (simp add: validation_event_def trigger_focusout_validation_def validate_def
        focusout_validate_def RequiredEntry_focusout_validate_def invalid_def
        focusout_invalid_def toggle_error_def init_widget_def Let_def)


section \<open>The focus-out rule of DateEntry and the key rule of ValidatedSpinbox at work\<close>

text \<open>
  What holds of the focus-out rule of DateEntry: the contents are valid exactly when they
  are not empty and \<^verbatim>\<open>strptime\<close> accepts them, a failure sets an error message, and the
  empty text fails. The stand-alone DateEntry of DateEntry.py dispatches on the event in
  the same way, without a test of the widget's state, and its invalid-handler sets the
  message \<^verbatim>\<open>Not a valid date\<close>.
\<close>

lemma DateEntry_focusout_valid_iff:
  "fst (DateEntry_focusout_validate w) \<longleftrightarrow> content w \<noteq> [] \<and> strptime_Ymd (content w) \<noteq> None"
  by (auto simp: DateEntry_focusout_validate_def split: option.splits)

lemma DateEntry_focusout_error:
  "\<not> fst (DateEntry_focusout_validate w) \<Longrightarrow> error (snd (DateEntry_focusout_validate w)) \<noteq> []"
  by (auto simp: DateEntry_focusout_validate_def split: option.splits if_splits)

lemma strptime_Ymd_empty: "strptime_Ymd [] = None"
  by (simp add: strptime_Ymd_def)

lemma DateEntry_py_validate_dispatch:
  "fst (DateEntry_py_validate w char index event action) =
     (if event = ''key'' then DateEntry_key_validate action index char
      else if event = ''focusout'' then strptime_Ymd (content w) \<noteq> None
      else True)"
  by (simp add: DateEntry_py_validate_def DateEntry_py_toggle_error_def DateEntry_key_validate_def
        Let_def split: option.splits)

lemma DateEntry_py_focusout_error:
  assumes "DateEntry_py_validate w char index ''focusout'' action = (False, w1)"
  shows "error (DateEntry_py_on_invalid w1 ''focusout'') = ''Not a valid date''"
    and "opt_foreground (DateEntry_py_on_invalid w1 ''focusout'') = ''red''"
  by (simp_all add: DateEntry_py_on_invalid_def DateEntry_py_toggle_error_def)

text \<open>
  Claim C6 says that, on focus-out, the contents of a DateEntry are valid exactly when
  they are a four-digit year, a two-digit month and a two-digit day, separated by
  hyphens, that denote a real date. The code asks \<^verbatim>\<open>strptime\<close>, for which the leading
  zero of a month or a day is optional: the text \<^verbatim>\<open>2024-10-5\<close>, which the key rule lets
  the user type character by character, is judged valid on focus-out, by
  \<^verbatim>\<open>DateEntry._focusout_validate\<close>, through the mixin, and by the stand-alone DateEntry.
\<close>

theorem C6_DateEntry_accepts_one_digit_day:
  "list_all (\<lambda>(index, char). DateEntry_key_validate ''1'' index char)
     [(''0'', ''2''), (''1'', ''0''), (''2'', ''2''), (''3'', ''4''), (''4'', ''-''),
      (''5'', ''1''), (''6'', ''0''), (''7'', ''-''), (''8'', ''5'')]
   \<and> strptime_Ymd ''2024-10-5'' = Some (Date 2024 10 5)
   \<and> DateEntry_focusout_validate ((init_widget DateEntry)\<lparr>content := ''2024-10-5''\<rparr>)
       = (True, (init_widget DateEntry)\<lparr>content := ''2024-10-5''\<rparr>)
   \<and> trigger_focusout_validation (\<lambda>n. []) ((init_widget DateEntry)\<lparr>content := ''2024-10-5''\<rparr>)
       = Inr (True, (init_widget DateEntry)\<lparr>content := ''2024-10-5'', opt_foreground := ''black''\<rparr>)
   \<and> fst (DateEntry_py_validate ((init_widget DateEntry)\<lparr>content := ''2024-10-5''\<rparr>)
            [] ''-1'' ''focusout'' ''-1'')"
proof -
  have p: "strptime_Ymd ''2024-10-5'' = Some (Date 2024 10 5)"
    by (simp add: strptime_Ymd_def month_text_def day_text_def digit_def int_of_digits_def
          digit_val_def days_in_month_def is_leap_def)
  have k: "list_all (\<lambda>(index, char). DateEntry_key_validate ''1'' index char)
     [(''0'', ''2''), (''1'', ''0''), (''2'', ''2''), (''3'', ''4''), (''4'', ''-''),
      (''5'', ''1''), (''6'', ''0''), (''7'', ''-''), (''8'', ''5'')]"
    by (simp add: DateEntry_key_validate_def isdigit_def digit_def)
  show ?thesis
    using p k
    by (simp add: DateEntry_focusout_validate_def trigger_focusout_validation_def validate_def
          focusout_validate_def toggle_error_def init_widget_def DateEntry_py_validate_def
          DateEntry_py_toggle_error_def Let_def)
qed

text \<open>
  What holds of the key rule of ValidatedSpinbox: a deletion is accepted; an accepted
  insertion of one character inserts one of \<^verbatim>\<open>-1234567890.\<close>, a \<^verbatim>\<open>-\<close> only at index 0
  of a widget whose minimum is negative, a \<^verbatim>\<open>.\<close> only when the precision is negative and
  the current text has no point; when the proposed text is a numeral, it is rejected
  exactly when its value exceeds the maximum or its exponent is below the precision; the
  minimum matters to the key rule only through its sign, and is enforced on focus-out.
\<close>

lemma ValidatedSpinbox_key_deletion:
  "ValidatedSpinbox_key_validate w char index current proposed ''0'' = Inr True"
  by (simp add: ValidatedSpinbox_key_validate_def)

lemma ValidatedSpinbox_key_character:
  assumes "action \<noteq> ''0''"
    and "ValidatedSpinbox_key_validate w [c] index current proposed action = Inr True"
  shows "c \<in> set ''-1234567890.''"
    and "c = CHR ''-'' \<longrightarrow> index = ''0'' \<and> num_less (opt_from w) (Num 0)"
    and "c = CHR ''.'' \<longrightarrow> precision w < 0 \<and> CHR ''.'' \<notin> set current"
proof -
  have sub: "py_in [x] s \<longleftrightarrow> x \<in> set s" for x :: char and s
    by (induction s) (auto simp: startswith_def)
  from assms have ok: "py_in [c] ''-1234567890.''"
    "\<not> ([c] = ''-'' \<and> (\<not> num_less (opt_from w) (Num 0) \<or> index \<noteq> ''0''))"
    "\<not> ([c] = ''.'' \<and> (precision w \<ge> 0 \<or> py_in ''.'' current))"
    by (auto simp: ValidatedSpinbox_key_validate_def Let_def split: if_splits)
  from ok(1) show "c \<in> set ''-1234567890.''" by (simp only: sub)
  from ok(2) show "c = CHR ''-'' \<longrightarrow> index = ''0'' \<and> num_less (opt_from w) (Num 0)" by auto
  from ok(3) sub[of "CHR ''.''" current]
  show "c = CHR ''.'' \<longrightarrow> precision w < 0 \<and> CHR ''.'' \<notin> set current" by auto
qed

lemma ValidatedSpinbox_key_numeral:
  assumes "action \<noteq> ''0''"
    and "py_in char ''-1234567890.''"
    and "\<not> (char = ''-'' \<and> (\<not> num_less (opt_from w) (Num 0) \<or> index \<noteq> ''0''))"
    and "\<not> (char = ''.'' \<and> (precision w \<ge> 0 \<or> py_in ''.'' current))"
    and "\<not> py_in proposed ''-.''"
    and "Decimal proposed = Some d"
  shows "ValidatedSpinbox_key_validate w char index current proposed action
           = Inr (\<not> (num_less (opt_to w) (Num (dec_value d)) \<or> exponent d < precision w))"
  using assms by (simp add: ValidatedSpinbox_key_validate_def Let_def)

lemma ValidatedSpinbox_key_minimum:
  assumes "num_less (opt_from w) (Num 0) \<longleftrightarrow> num_less lo (Num 0)"
  shows "ValidatedSpinbox_key_validate (w\<lparr>opt_from := lo\<rparr>) char index current proposed action
           = ValidatedSpinbox_key_validate w char index current proposed action"
proof -
  have "opt_to (w\<lparr>opt_from := lo\<rparr>) = opt_to w" "precision (w\<lparr>opt_from := lo\<rparr>) = precision w"
    "opt_from (w\<lparr>opt_from := lo\<rparr>) = lo"
    by simp_all
  then show ?thesis
    unfolding ValidatedSpinbox_key_validate_def Let_def assms by (simp only:)
qed

lemma ValidatedSpinbox_focusout_minimum:
  assumes "Decimal (content w) = Some d" and "num_less (Num (dec_value d)) (opt_from w)"
  shows "fst (ValidatedSpinbox_focusout_validate str_float w) = False"
  using assms by (simp add: ValidatedSpinbox_focusout_validate_def Let_def split: prod.splits)

lemma Decimal_double_minus: "Decimal ''--5'' = None"
  by (simp add: Decimal_def isdigit_def digit_def)

lemma precision_default: "ValidatedSpinbox_precision ''1.0'' = Some 0"
  by (simp add: ValidatedSpinbox_precision_def Decimal_def digit_def normalize_dec_def
        int_of_digits_def digit_val_def)

lemma precision_ten: "ValidatedSpinbox_precision ''10'' = Some 1"
  by (simp add: ValidatedSpinbox_precision_def Decimal_def isdigit_def digit_def normalize_dec_def
        int_of_digits_def digit_val_def)

lemma precision_hundredth: "ValidatedSpinbox_precision ''0.01'' = Some (- 2)"
  by (simp add: ValidatedSpinbox_precision_def Decimal_def digit_def normalize_dec_def
        int_of_digits_def digit_val_def)

text \<open>
  Claim C8 says that the key rule of ValidatedSpinbox, once the inserted character has
  passed its tests and the proposed text is neither \<^verbatim>\<open>-\<close> nor \<^verbatim>\<open>.\<close>, rejects the
  proposed text exactly when its decimal value exceeds the maximum or it has more
  decimal places than the increment. Three inputs where the code does otherwise. On a
  spinbox with the default bounds the user types \<^verbatim>\<open>-\<close>, \<^verbatim>\<open>5\<close> and then \<^verbatim>\<open>-\<close> at index 0:
  the proposed text \<^verbatim>\<open>--5\<close> is no numeral and the rule raises \<^verbatim>\<open>InvalidOperation\<close>
  instead of deciding. On a spinbox from 0 to 100 with increment 10 the normalised
  increment has exponent 1, and the text \<^verbatim>\<open>5\<close>, below the maximum and with no decimal
  place, is rejected. On the Humidity spinbox of the form, with \<^verbatim>\<open>1.5\<close> in it, inserting
  the two characters \<^verbatim>\<open>0.\<close> at once passes the character tests and the rule raises
  \<^verbatim>\<open>InvalidOperation\<close> on \<^verbatim>\<open>1.50.\<close>.
\<close>

theorem C8_ValidatedSpinbox_key_rule_failures:
  "ValidatedSpinbox_init NegInf PosInf ''1.0'' = Some (init_widget ValidatedSpinbox)
   \<and> ValidatedSpinbox_key_validate (init_widget ValidatedSpinbox) ''-'' ''0'' [] ''-'' ''1'' = Inr True
   \<and> ValidatedSpinbox_key_validate (init_widget ValidatedSpinbox) ''5'' ''1'' ''-'' ''-5'' ''1'' = Inr True
   \<and> ValidatedSpinbox_key_validate (init_widget ValidatedSpinbox) ''-'' ''0'' ''-5'' ''--5'' ''1''
       = Inl InvalidOperation
   \<and> validate (\<lambda>n. []) (init_widget ValidatedSpinbox) ''--5'' ''-5'' ''-'' ''key'' ''0'' ''1''
       = Inl InvalidOperation
   \<and> ValidatedSpinbox_init (Num 0) (Num 100) ''10''
       = Some ((init_widget ValidatedSpinbox)\<lparr>opt_from := Num 0, opt_to := Num 100, precision := 1\<rparr>)
   \<and> ValidatedSpinbox_key_validate
        ((init_widget ValidatedSpinbox)\<lparr>opt_from := Num 0, opt_to := Num 100, precision := 1\<rparr>)
        ''5'' ''0'' [] ''5'' ''1'' = Inr False
   \<and> ValidatedSpinbox_init (Num (1 / 2)) (Num 52) ''0.01''
       = Some ((init_widget ValidatedSpinbox)\<lparr>opt_from := Num (1 / 2), opt_to := Num 52, precision := - 2\<rparr>)
   \<and> ValidatedSpinbox_key_validate
        ((init_widget ValidatedSpinbox)\<lparr>opt_from := Num (1 / 2), opt_to := Num 52, precision := - 2\<rparr>)
        ''0.'' ''3'' ''1.5'' ''1.50.'' ''1'' = Inl InvalidOperation"
proof -
  have d1: "Decimal ''--5'' = None" "Decimal ''1.50.'' = None"
    by (simp_all add: Decimal_def isdigit_def digit_def)
  have d2: "Decimal ''-5'' = Some (Dec True 5 0)" "Decimal ''5'' = Some (Dec False 5 0)"
    by (simp_all add: Decimal_def isdigit_def digit_def int_of_digits_def digit_val_def)
  show ?thesis
    using d1 d2
    by (simp add: ValidatedSpinbox_init_def precision_default precision_ten precision_hundredth
          ValidatedSpinbox_key_validate_def validate_def key_validate_def toggle_error_def
          init_widget_def startswith_def dec_value_def Let_def)
qed

theorem C8_ValidatedSpinbox_key_rule_failures_witness:
  "ValidatedSpinbox_key_validate (init_widget ValidatedSpinbox) ''-'' ''0'' ''-5'' ''--5'' ''1''
       = Inl InvalidOperation \<and> Decimal ''--5'' = None"
  using C8_ValidatedSpinbox_key_rule_failures by (simp add: Decimal_double_minus)

section \<open>Properties of the save handlers\<close>

lemma dict_set_fresh: "k \<notin> set (map fst d) \<Longrightarrow> dict_set d k v = d @ [(k, v)]"
  by (simp add: dict_set_def)

lemma on_save_loop_Cons:
  "on_save_loop tk fault ((key, var) # rest) data =
     (if blanked fault key then on_save_loop tk fault rest (dict_set data key (PyStr []))
      else (case var_get tk var of
              None \<Rightarrow> Inl key
            | Some v \<Rightarrow> on_save_loop tk fault rest (dict_set data key v)))"
  by (simp add: blanked_def)

lemma get_loop_Cons:
  "get_loop tk fault ((key, var) # rest) data =
     (if blanked fault key then get_loop tk fault rest (dict_set data key (PyStr []))
      else (case var_get tk var of
              None \<Rightarrow> Inl (ValueError (''Error in field: '' @ key @ ''. Data is not saved!''))
            | Some v \<Rightarrow> get_loop tk fault rest (dict_set data key v)))"
  by (simp add: blanked_def)

lemma on_save_loop_find:
  "on_save_loop tk fault vars data =
     (case find (unreadable tk fault) vars of
        Some kv \<Rightarrow> Inl (fst kv)
      | None \<Rightarrow> Inr (foldl (\<lambda>d kv. dict_set d (fst kv) (the (field_value tk fault kv))) data vars))"
proof (induction vars arbitrary: data)
  case Nil
  show ?case by simp
next
  case (Cons kv vars)
  obtain key var where kv: "kv = (key, var)" by (cases kv)
  show ?case
    unfolding kv on_save_loop_Cons
    by (cases "var_get tk var")
       (simp_all add: Cons.IH unreadable_def field_value_def split: option.splits)
qed

lemma get_loop_on_save_loop:
  "get_loop tk fault vars data =
     (case on_save_loop tk fault vars data of
        Inl key \<Rightarrow> Inl (ValueError (''Error in field: '' @ key @ ''. Data is not saved!''))
      | Inr d \<Rightarrow> Inr d)"
proof (induction vars arbitrary: data)
  case Nil
  show ?case by simp
next
  case (Cons kv vars)
  obtain key var where kv: "kv = (key, var)" by (cases kv)
  show ?case
    unfolding kv on_save_loop_Cons get_loop_Cons
    by (cases "var_get tk var") (simp_all add: Cons.IH)
qed

lemma foldl_dict_set_fresh:
  "distinct (map fst vars) \<Longrightarrow> set (map fst vars) \<inter> set (map fst data) = {} \<Longrightarrow>
     foldl (\<lambda>d kv. dict_set d (fst kv) (f kv)) data vars = data @ map (\<lambda>kv. (fst kv, f kv)) vars"
proof (induction vars arbitrary: data)
  case Nil
  show ?case by simp
next
  case (Cons kv vars)
  from Cons.prems have fresh: "fst kv \<notin> set (map fst data)" by auto
  from Cons.prems have d: "distinct (map fst vars)"
    and disj: "set (map fst vars) \<inter> set (map fst (data @ [(fst kv, f kv)])) = {}"
    by auto
  show ?case
    using Cons.IH[OF d disj] by (simp add: dict_set_fresh[OF fresh])
qed

lemma on_save_loop_record:
  assumes "distinct (map fst vars)" and "on_save_loop tk fault vars [] = Inr data"
  shows "data = map (\<lambda>kv. (fst kv, the (field_value tk fault kv))) vars"
    and "list_all (\<lambda>kv. \<not> unreadable tk fault kv) vars"
proof -
  from assms(2) have none: "find (unreadable tk fault) vars = None"
    by (simp add: on_save_loop_find split: option.splits)
  then show "list_all (\<lambda>kv. \<not> unreadable tk fault kv) vars"
    by (auto simp: find_None_iff list_all_iff)
  from assms(2) none
  have "data = foldl (\<lambda>d kv. dict_set d (fst kv) (the (field_value tk fault kv))) [] vars"
    by (simp add: on_save_loop_find)
  with foldl_dict_set_fresh[OF assms(1), of "[]"] show "data = map (\<lambda>kv. (fst kv, the (field_value tk fault kv))) vars"
    by simp
qed

lemma record_fields:
  assumes "distinct (map fst vars)" and "on_save_loop tk fault vars [] = Inr data"
  shows "list_all2 (\<lambda>(key, var) (k, v). k = key \<and>
            (if fault \<and> key \<in> set [''Light'', ''Humidity'', ''Temperature'']
             then v = PyStr [] else var_get tk var = Some v)) vars data"
proof -
  note r = on_save_loop_record[OF assms]
  have "list_all2 (\<lambda>(key, var) (k, v). k = key \<and>
            (if fault \<and> key \<in> set [''Light'', ''Humidity'', ''Temperature'']
             then v = PyStr [] else var_get tk var = Some v)) vars
          (map (\<lambda>kv. (fst kv, the (field_value tk fault kv))) vars)"
    using r(2)
    by (induction vars) (auto simp: unreadable_def blanked_def field_value_def)
  with r(1) show ?thesis by simp
qed

text \<open>
  Claim C9. The record a save assembles has one field per form variable, in the order of
  the variables. When the Equipment Fault variable holds true, the fields Light,
  Humidity and Temperature are the empty text whatever their variables hold, and every
  other field is the value read from its variable; when it holds false, every field is
  the value read from its variable. This holds for \<^verbatim>\<open>DataRecordForm.get\<close> and for the loop
  of the script's \<^verbatim>\<open>on_save\<close>.
\<close>

theorem C9_assembled_record:
  "(map_of vars ''Equipment Fault'' = Some (BooleanVar fault) \<longrightarrow> distinct (map fst vars) \<longrightarrow>
      DataRecordForm_get tk vars = Inr data \<longrightarrow>
      list_all2 (\<lambda>(key, var) (k, v). k = key \<and>
            (if fault \<and> key \<in> set [''Light'', ''Humidity'', ''Temperature'']
             then v = PyStr [] else var_get tk var = Some v)) vars data)
   \<and> (distinct (map fst vars) \<longrightarrow> on_save_loop tk fault vars [] = Inr data \<longrightarrow>
      list_all2 (\<lambda>(key, var) (k, v). k = key \<and>
            (if fault \<and> key \<in> set [''Light'', ''Humidity'', ''Temperature'']
             then v = PyStr [] else var_get tk var = Some v)) vars data)"
proof (intro conjI impI)
  assume ef: "map_of vars ''Equipment Fault'' = Some (BooleanVar fault)"
    and d: "distinct (map fst vars)" and g: "DataRecordForm_get tk vars = Inr data"
  from ef g have "get_loop tk fault vars [] = Inr data"
    by (simp add: DataRecordForm_get_def)
  then have "on_save_loop tk fault vars [] = Inr data"
    by (simp add: get_loop_on_save_loop split: sum.splits)
  from record_fields[OF d this]
  show "list_all2 (\<lambda>(key, var) (k, v). k = key \<and>
            (if fault \<and> key \<in> set [''Light'', ''Humidity'', ''Temperature'']
             then v = PyStr [] else var_get tk var = Some v)) vars data" .
next
  assume d: "distinct (map fst vars)" and g: "on_save_loop tk fault vars [] = Inr data"
  from record_fields[OF d g]
  show "list_all2 (\<lambda>(key, var) (k, v). k = key \<and>
            (if fault \<and> key \<in> set [''Light'', ''Humidity'', ''Temperature'']
             then v = PyStr [] else var_get tk var = Some v)) vars data" .
qed


lemma find_unreadable:
  assumes "kv \<in> set vars" and "unreadable tk fault kv"
  shows "\<exists>k v. find (unreadable tk fault) vars = Some (k, v)"
proof (cases "find (unreadable tk fault) vars")
  case None
  then have "\<not> (\<exists>x. x \<in> set vars \<and> unreadable tk fault x)"
    by (simp add: find_None_iff)
  with assms show ?thesis by blast
next
  case (Some p)
  then show ?thesis by (cases p) simp
qed



lemma DataRecordForm_get_find:
  assumes "map_of vars ''Equipment Fault'' = Some (BooleanVar fault)"
  shows "DataRecordForm_get tk vars =
     (case find (unreadable tk fault) vars of
        Some kv \<Rightarrow> Inl (ValueError (''Error in field: '' @ fst kv @ ''. Data is not saved!''))
      | None \<Rightarrow> Inr (foldl (\<lambda>d kv. dict_set d (fst kv) (the (field_value tk fault kv))) [] vars))"
  using assms
  by (simp add: DataRecordForm_get_def get_loop_on_save_loop on_save_loop_find split: option.splits)



text \<open>
  Claim C10. If reading a form variable during a save raises \<^verbatim>\<open>TclError\<close> (the variable is
  one the loop reads: not an environmental field blanked by Equipment Fault), the handler
  returns before it opens the file: the files are unchanged, the counter of saved records
  is unchanged, the variables are not reset, and the status is the error message that
  names the first field whose read fails. This holds for \<^verbatim>\<open>Application._on_save\<close> and for
  the script's \<^verbatim>\<open>on_save\<close>.
\<close>

theorem C10_save_stops_on_read_error:
  "(map_of (app_vars a) ''Equipment Fault'' = Some (BooleanVar fault) \<longrightarrow>
      (key, var) \<in> set (app_vars a) \<longrightarrow>
      \<not> (fault \<and> key \<in> set [''Light'', ''Humidity'', ''Temperature'']) \<longrightarrow>
      var_get tk var = None \<longrightarrow>
      (\<exists>k v. find (unreadable tk fault) (app_vars a) = Some (k, v)
         \<and> Application_on_save tk today fs a
             = Inr (fs, a\<lparr>app_status := ''Error in field: '' @ k @ ''. Data is not saved!''\<rparr>)))
   \<and> (map_of (variables g) ''Equipment Fault'' = Some (BooleanVar fault) \<longrightarrow>
      (key, var) \<in> set (variables g) \<longrightarrow>
      \<not> (fault \<and> key \<in> set [''Light'', ''Humidity'', ''Temperature'']) \<longrightarrow>
      var_get tk var = None \<longrightarrow>
      (\<exists>k v. find (unreadable tk fault) (variables g) = Some (k, v)
         \<and> on_save tk today fs g
             = Inr (fs, g\<lparr>status_variable := ''Error in field: '' @ k @ ''. Data was not saved!''\<rparr>)))"
proof (intro conjI impI)
  assume ef: "map_of (app_vars a) ''Equipment Fault'' = Some (BooleanVar fault)"
    and mem: "(key, var) \<in> set (app_vars a)"
    and nb: "\<not> (fault \<and> key \<in> set [''Light'', ''Humidity'', ''Temperature''])"
    and err: "var_get tk var = None"
  from nb err have "unreadable tk fault (key, var)"
    by (simp add: unreadable_def blanked_def)
  from find_unreadable[OF mem this]
  obtain k v where f: "find (unreadable tk fault) (app_vars a) = Some (k, v)" by blast
  have "Application_on_save tk today fs a
      = Inr (fs, a\<lparr>app_status := ''Error in field: '' @ k @ ''. Data is not saved!''\<rparr>)"
    by (simp add: Application_on_save_def DataRecordForm_get_find[OF ef] f Let_def)
  with f show "\<exists>k v. find (unreadable tk fault) (app_vars a) = Some (k, v)
         \<and> Application_on_save tk today fs a
             = Inr (fs, a\<lparr>app_status := ''Error in field: '' @ k @ ''. Data is not saved!''\<rparr>)"
    by blast
next
  assume ef: "map_of (variables g) ''Equipment Fault'' = Some (BooleanVar fault)"
    and mem: "(key, var) \<in> set (variables g)"
    and nb: "\<not> (fault \<and> key \<in> set [''Light'', ''Humidity'', ''Temperature''])"
    and err: "var_get tk var = None"
  from nb err have "unreadable tk fault (key, var)"
    by (simp add: unreadable_def blanked_def)
  from find_unreadable[OF mem this]
  obtain k v where f: "find (unreadable tk fault) (variables g) = Some (k, v)" by blast
  have "on_save tk today fs g
      = Inr (fs, g\<lparr>status_variable := ''Error in field: '' @ k @ ''. Data was not saved!''\<rparr>)"
    by (simp add: on_save_def ef on_save_loop_find f Let_def)
  with f show "\<exists>k v. find (unreadable tk fault) (variables g) = Some (k, v)
         \<and> on_save tk today fs g
             = Inr (fs, g\<lparr>status_variable := ''Error in field: '' @ k @ ''. Data was not saved!''\<rparr>)"
    by blast
qed



subsection \<open>The handlers on the example states\<close>

lemma strftime_example: "strftime_Ymd (Date 2026 11 3) = ''2026-11-03''"
  by code_simp

lemma str_nat_one: "str_nat (Suc 0) = ''1''"
  by code_simp

lemma example_fault_var: "map_of (example_vars fault) ''Equipment Fault'' = Some (BooleanVar fault)"
  by (simp add: example_vars_def)

lemma example_distinct: "distinct (map fst (example_vars fault))"
  by (simp add: example_vars_def)

lemma example_numbers:
  "getint plain_tcl ''3'' = Some 3" "getint plain_tcl ''7'' = Some 7"
  "getint plain_tcl ''12'' = Some 12" "getint plain_tcl ''0'' = Some 0"
  "getdouble plain_tcl ''1.5'' = Some (3 / 2)" "getdouble plain_tcl ''20'' = Some 20"
  "getdouble plain_tcl ''11.25'' = Some (45 / 4)" "getdouble plain_tcl ''0.0'' = Some 0"
  "getdouble plain_tcl [] = None" "getdouble plain_tcl ''x'' = None"
  "getdouble plain_tcl ''21.5'' = Some (43 / 2)"
  by (simp_all add: plain_tcl_def isdigit_def digit_def int_of_digits_def digit_val_def
        Decimal_def dec_value_def)

lemma example_get: "DataRecordForm_get plain_tcl (example_vars True) = Inr example_record"
  by (simp add: DataRecordForm_get_def example_vars_def example_record_def dict_set_def
        example_numbers)

lemma example_loop: "on_save_loop plain_tcl True (example_vars True) [] = Inr example_record"
  by (simp add: example_vars_def example_record_def dict_set_def example_numbers)

lemma example_find_unreadable:
  "find (unreadable plain_tcl False) (example_vars False) = Some (''Humidity'', DoubleVar [])"
  by (simp add: example_vars_def unreadable_def blanked_def example_numbers)


theorem C9_assembled_record_witness:
  "map_of (example_vars True) ''Equipment Fault'' = Some (BooleanVar True)
   \<and> distinct (map fst (example_vars True))
   \<and> DataRecordForm_get plain_tcl (example_vars True) = Inr example_record
   \<and> on_save_loop plain_tcl True (example_vars True) [] = Inr example_record
   \<and> list_all2 (\<lambda>(key, var) (k, v). k = key \<and>
            (if True \<and> key \<in> set [''Light'', ''Humidity'', ''Temperature'']
             then v = PyStr [] else var_get plain_tcl var = Some v))
        (example_vars True) example_record
   \<and> map_of example_record ''Light'' = Some (PyStr [])
   \<and> map_of (example_vars True) ''Light'' = Some (DoubleVar ''x'')"
proof -
  have l: "map_of example_record ''Light'' = Some (PyStr [])"
    "map_of (example_vars True) ''Light'' = Some (DoubleVar ''x'')"
    by (simp_all add: example_record_def example_vars_def)
  from C9_assembled_record [of "example_vars True" True plain_tcl example_record]
       example_fault_var [of True] example_distinct [of True] example_get example_loop l
  show ?thesis by blast
qed

theorem C10_save_stops_on_read_error_witness:
  "map_of (app_vars (example_app False)) ''Equipment Fault'' = Some (BooleanVar False)
   \<and> (''Humidity'', DoubleVar []) \<in> set (app_vars (example_app False))
   \<and> \<not> (False \<and> ''Humidity'' \<in> set [''Light'', ''Humidity'', ''Temperature''])
   \<and> var_get plain_tcl (DoubleVar []) = None
   \<and> Application_on_save plain_tcl (Date 2026 11 3) Map.empty (example_app False)
       = Inr (Map.empty,
              (example_app False)\<lparr>app_status := ''Error in field: Humidity. Data is not saved!''\<rparr>)
   \<and> map_of (variables (example_globals False)) ''Equipment Fault'' = Some (BooleanVar False)
   \<and> (''Humidity'', DoubleVar []) \<in> set (variables (example_globals False))
   \<and> on_save plain_tcl (Date 2026 11 3) Map.empty (example_globals False)
       = Inr (Map.empty,
              (example_globals False)\<lparr>status_variable := ''Error in field: Humidity. Data was not saved!''\<rparr>)"
proof -
  have h1: "map_of (app_vars (example_app False)) ''Equipment Fault'' = Some (BooleanVar False)"
    by (simp add: example_app_def example_fault_var)
  have h2: "(''Humidity'', DoubleVar []) \<in> set (app_vars (example_app False))"
    by (simp add: example_app_def example_vars_def)
  have h3: "\<not> (False \<and> ''Humidity'' \<in> set [''Light'', ''Humidity'', ''Temperature''])"
    by simp
  have h4: "var_get plain_tcl (DoubleVar []) = None"
    by (simp add: example_numbers)
  have g1: "map_of (variables (example_globals False)) ''Equipment Fault'' = Some (BooleanVar False)"
    by (simp add: example_globals_def example_vars_def)
  have g2: "(''Humidity'', DoubleVar []) \<in> set (variables (example_globals False))"
    by (simp add: example_globals_def example_vars_def)
  have f1: "find (unreadable plain_tcl False) (app_vars (example_app False))
      = Some (''Humidity'', DoubleVar [])"
    by (simp add: example_app_def example_find_unreadable)
  have f2: "find (unreadable plain_tcl False) (variables (example_globals False))
      = Some (''Humidity'', DoubleVar [])"
    by (simp add: example_globals_def example_vars_def unreadable_def blanked_def example_numbers)
  note c = C10_save_stops_on_read_error
             [of "example_app False" False "''Humidity''" "DoubleVar []" plain_tcl
                 "Date 2026 11 3" Map.empty "example_globals False"]
  from c h1 h2 h3 h4 f1
  have a: "Application_on_save plain_tcl (Date 2026 11 3) Map.empty (example_app False)
       = Inr (Map.empty,
              (example_app False)\<lparr>app_status := ''Error in field: Humidity. Data is not saved!''\<rparr>)"
    by auto
  from c g1 g2 h3 h4 f2
  have b: "on_save plain_tcl (Date 2026 11 3) Map.empty (example_globals False)
       = Inr (Map.empty,
              (example_globals False)\<lparr>status_variable := ''Error in field: Humidity. Data was not saved!''\<rparr>)"
    by auto
  from h1 h2 h3 h4 a g1 g2 b show ?thesis by blast
qed

lemma str_nat_1: "str_nat 1 = ''1''"
  by code_simp

lemma example_save:
  "Application_on_save plain_tcl (Date 2026 11 3) Map.empty (example_app True)
     = Inr ([''abq_data_record_2026-11-03.csv'' \<mapsto>
               [map (\<lambda>(k, v). PyStr k) example_record, map snd example_record]],
            \<lparr>app_vars = reset (example_vars True),
              app_status = ''1 records saved this session.'', app_records_saved = 1\<rparr>)"
  by (simp add: Application_on_save_def example_app_def example_get strftime_example
        csv_append_def open_append_def str_nat_1 str_nat_one Let_def)



lemma example_save_again:
  "Application_on_save plain_tcl (Date 2026 11 3)
       [''abq_data_record_2026-11-03.csv'' \<mapsto>
          [map (\<lambda>(k, v). PyStr k) example_record, map snd example_record]]
       (example_app True)
     = Inr ([''abq_data_record_2026-11-03.csv'' \<mapsto>
               [map (\<lambda>(k, v). PyStr k) example_record, map snd example_record,
                map snd example_record]],
            \<lparr>app_vars = reset (example_vars True),
              app_status = ''1 records saved this session.'', app_records_saved = 1\<rparr>)"
  by (simp add: Application_on_save_def example_app_def example_get strftime_example
        csv_append_def open_append_def str_nat_1 str_nat_one Let_def)





end
